theory Spec2Isabelle
  imports Main
begin

section \<open>RDF terms, statements and Things\<close>

text \<open>
  The accessors of \<^verbatim>\<open>src/thing/get.ts\<close> read a Thing, a collection of RDF/JS quads.
  The RDF/JS data model is written out as datatypes: every term has a \<^verbatim>\<open>value\<close>, a
  literal also has a \<^verbatim>\<open>language\<close> and a \<^verbatim>\<open>datatype\<close>, which is itself a named node.
  JavaScript strings are modelled as \<^typ>\<open>string\<close>.
\<close>

datatype named_node = NamedNode (nn_value: string)

datatype literal =
  Literal (lit_value: string) (lit_language: string) (lit_datatype: named_node)

datatype rdf_term =
    TNamedNode named_node
  | TLiteral literal
  | TBlankNode string
  | TVariable string
  | TDefaultGraph

record quad =
  subject :: rdf_term
  predicate :: rdf_term
  object :: rdf_term
  graph :: rdf_term

text \<open>
  A Thing is iterated with \<^verbatim>\<open>for (const quad of thing)\<close>; it is modelled by the list of
  its quads in iteration order.
\<close>

type_synonym thing = "quad list"

text \<open>A predicate argument is \<^verbatim>\<open>Iri | IriString\<close>: a named node or a raw string.\<close>

datatype predicate_ref = IriString string | Iri named_node

text \<open>The \<^verbatim>\<open>.value\<close> property, which every RDF/JS term has.\<close>

fun term_value :: "rdf_term \<Rightarrow> string" where
  "term_value (TNamedNode n) = nn_value n"
| "term_value (TLiteral l) = lit_value l"
| "term_value (TBlankNode b) = b"
| "term_value (TVariable v) = v"
| "term_value TDefaultGraph = []"

text \<open>
  \<^verbatim>\<open>NamedNode.equals(other)\<close> of RDF/JS: true exactly when \<^verbatim>\<open>other\<close> is a named node with
  the same value.
\<close>

fun equals :: "named_node \<Rightarrow> rdf_term \<Rightarrow> bool" where
  "equals n (TNamedNode m) = (nn_value m = nn_value n)"
| "equals n other = False"

subsection \<open>The helpers imported from \<^verbatim>\<open>../datatypes\<close>\<close>

text \<open>
  Modelled from the spec: \<^verbatim>\<open>isNamedNode\<close> and \<^verbatim>\<open>isLiteral\<close> of \<^verbatim>\<open>../datatypes\<close>, the node
  classifier of section 4.2 (total, non-throwing, mutually exclusive).
\<close>

fun isNamedNode :: "rdf_term \<Rightarrow> bool" where
  "isNamedNode (TNamedNode n) = True"
| "isNamedNode other = False"

fun isLiteral :: "rdf_term \<Rightarrow> bool" where
  "isLiteral (TLiteral l) = True"
| "isLiteral other = False"

text \<open>
  Modelled from the spec: \<^verbatim>\<open>asNamedNode\<close> of \<^verbatim>\<open>../datatypes\<close>, the predicate canonicalizer
  of section 4.1: a named node is returned as it is, a raw string becomes the named node
  with that value; there is no error path.
\<close>

fun asNamedNode :: "predicate_ref \<Rightarrow> named_node" where
  "asNamedNode (Iri n) = n"
| "asNamedNode (IriString s) = NamedNode s"

text \<open>
  Modelled from the spec: the datatype constants \<^verbatim>\<open>xmlSchemaTypes\<close> of \<^verbatim>\<open>../datatypes\<close>
  (section 6), the fixed mapping from a logical type name to its datatype IRI.
\<close>

definition xmlSchemaTypes_boolean :: string where
  "xmlSchemaTypes_boolean = ''http://www.w3.org/2001/XMLSchema#boolean''"

definition xmlSchemaTypes_dateTime :: string where
  "xmlSchemaTypes_dateTime = ''http://www.w3.org/2001/XMLSchema#dateTime''"

definition xmlSchemaTypes_decimal :: string where
  "xmlSchemaTypes_decimal = ''http://www.w3.org/2001/XMLSchema#decimal''"

definition xmlSchemaTypes_integer :: string where
  "xmlSchemaTypes_integer = ''http://www.w3.org/2001/XMLSchema#integer''"

definition xmlSchemaTypes_string :: string where
  "xmlSchemaTypes_string = ''http://www.w3.org/2001/XMLSchema#string''"

definition xmlSchemaTypes_langString :: string where
  "xmlSchemaTypes_langString = ''http://www.w3.org/1999/02/22-rdf-syntax-ns#langString''"

text \<open>
  Modelled from the spec: \<^verbatim>\<open>deserializeBoolean\<close> of \<^verbatim>\<open>../datatypes\<close>, by the lexical rule
  of section 4.5: \<^verbatim>\<open>"true"\<close> and \<^verbatim>\<open>"1"\<close> are true, \<^verbatim>\<open>"false"\<close> and \<^verbatim>\<open>"0"\<close> are false, any
  other lexical form is not found.

  The deserializers for datetimes, decimals and integers are described by the spec only
  as total functions from a lexical string to a value or not-found. The accessors below
  therefore take their deserializer as a first argument \<open>deserialize\<close>, and the results
  about them hold for every such function.
\<close>

definition deserializeBoolean :: "string \<Rightarrow> bool option" where
  "deserializeBoolean v =
     (if v = ''true'' \<or> v = ''1'' then Some True
      else if v = ''false'' \<or> v = ''0'' then Some False
      else None)"

subsection \<open>\<^verbatim>\<open>String.prototype.toLowerCase\<close>\<close>

text \<open>
  The locale matcher compares \<^verbatim>\<open>quad.object.language.toLowerCase()\<close> with
  \<^verbatim>\<open>locale.toLowerCase()\<close>. JavaScript's \<^verbatim>\<open>toLowerCase\<close> is the Unicode lower-case conversion
  of a whole string: a total function from strings to strings that is neither restricted
  to ASCII letters nor length-preserving. It is a built-in of the language and is not
  written out here. The locale matcher and the accessors built on it take the
  lower-casing function as their first argument \<open>toLowerCase\<close>, and the results about
  them hold for every function from strings to strings.
\<close>

section \<open>The statement scanner\<close>

text \<open>
  \<^verbatim>\<open>findOne\<close> returns from inside its loop at the first quad the matcher accepts, and
  \<^verbatim>\<open>null\<close> after the loop.
\<close>

fun findOne :: "thing \<Rightarrow> (quad \<Rightarrow> bool) \<Rightarrow> quad option" where
  "findOne [] matcher = None"
| "findOne (quad # rest) matcher =
     (if matcher quad then Some quad else findOne rest matcher)"

text \<open>
  \<^verbatim>\<open>findAll\<close> pushes every accepted quad onto \<^verbatim>\<open>matched\<close>, which starts empty; the loop
  carries \<^verbatim>\<open>matched\<close> along.
\<close>

fun findAll_loop :: "thing \<Rightarrow> (quad \<Rightarrow> bool) \<Rightarrow> quad list \<Rightarrow> quad list" where
  "findAll_loop [] matcher matched = matched"
| "findAll_loop (quad # rest) matcher matched =
     findAll_loop rest matcher (if matcher quad then matched @ [quad] else matched)"

definition findAll :: "thing \<Rightarrow> (quad \<Rightarrow> bool) \<Rightarrow> quad list" where
  "findAll thing matcher = findAll_loop thing matcher []"

section \<open>The matcher factory\<close>

definition getNamedNodeMatcher :: "predicate_ref \<Rightarrow> quad \<Rightarrow> bool" where
  "getNamedNodeMatcher predicateRef =
     (let predicateNode = asNamedNode predicateRef
      in (\<lambda>quad. equals predicateNode (predicate quad) \<and> isNamedNode (object quad)))"

definition getLiteralMatcher :: "predicate_ref \<Rightarrow> quad \<Rightarrow> bool" where
  "getLiteralMatcher predicateRef =
     (let predicateNode = asNamedNode predicateRef
      in (\<lambda>quad. equals predicateNode (predicate quad) \<and> isLiteral (object quad)))"

text \<open>
  After \<^verbatim>\<open>isLiteral(quad.object)\<close> the object is narrowed to a literal, whose \<^verbatim>\<open>datatype\<close>
  and \<^verbatim>\<open>language\<close> are then read; the case distinction on the object is that narrowing.
  What these reads do on another kind of node is the subject of the section on
  property reads below.
\<close>

definition getLiteralOfTypeMatcher :: "predicate_ref \<Rightarrow> string \<Rightarrow> quad \<Rightarrow> bool" where
  "getLiteralOfTypeMatcher predicateRef datatypeIri =
     (let predicateNode = asNamedNode predicateRef
      in (\<lambda>quad. equals predicateNode (predicate quad) \<and>
            isLiteral (object quad) \<and>
            (case object quad of
               TLiteral l \<Rightarrow> nn_value (lit_datatype l) = datatypeIri
             | _ \<Rightarrow> False)))"

definition getLocaleStringMatcher ::
  "(string \<Rightarrow> string) \<Rightarrow> predicate_ref \<Rightarrow> string \<Rightarrow> quad \<Rightarrow> bool" where
  "getLocaleStringMatcher toLowerCase predicateRef locale =
     (let predicateNode = asNamedNode predicateRef
      in (\<lambda>quad. equals predicateNode (predicate quad) \<and>
            isLiteral (object quad) \<and>
            (case object quad of
               TLiteral l \<Rightarrow>
                 nn_value (lit_datatype l) = xmlSchemaTypes_langString \<and>
                 toLowerCase (lit_language l) = toLowerCase locale
             | _ \<Rightarrow> False)))"

section \<open>The accessors\<close>

definition getLiteralOneOfType :: "thing \<Rightarrow> predicate_ref \<Rightarrow> string \<Rightarrow> string option" where
  "getLiteralOneOfType thing predicateRef literalType =
     (let literalOfTypeMatcher = getLiteralOfTypeMatcher predicateRef literalType
      in case findOne thing literalOfTypeMatcher of
           None \<Rightarrow> None
         | Some matchingQuad \<Rightarrow> Some (term_value (object matchingQuad)))"

definition getLiteralAllOfType :: "thing \<Rightarrow> predicate_ref \<Rightarrow> string \<Rightarrow> string list" where
  "getLiteralAllOfType thing predicateRef literalType =
     (let literalOfTypeMatcher = getLiteralOfTypeMatcher predicateRef literalType;
          matchingQuads = findAll thing literalOfTypeMatcher
      in map (\<lambda>quad. term_value (object quad)) matchingQuads)"

definition getIriOne :: "thing \<Rightarrow> predicate_ref \<Rightarrow> string option" where
  "getIriOne thing predicateRef =
     (let namedNodeMatcher = getNamedNodeMatcher predicateRef
      in case findOne thing namedNodeMatcher of
           None \<Rightarrow> None
         | Some matchingQuad \<Rightarrow> Some (term_value (object matchingQuad)))"

definition getIriAll :: "thing \<Rightarrow> predicate_ref \<Rightarrow> string list" where
  "getIriAll thing predicateRef =
     (let iriMatcher = getNamedNodeMatcher predicateRef;
          matchingQuads = findAll thing iriMatcher
      in map (\<lambda>quad. term_value (object quad)) matchingQuads)"

text \<open>
  The single-value accessors of the deserialized types return the deserializer's result
  on the one literal found; the multi-value accessors map the deserializer over all
  literals found and filter out the \<^verbatim>\<open>null\<close> results. The four pairs differ only in the
  datatype constant and the deserializer.
\<close>

definition getBooleanOne ::
  "(string \<Rightarrow> bool option) \<Rightarrow> thing \<Rightarrow> predicate_ref \<Rightarrow> bool option" where
  "getBooleanOne deserialize thing predicateRef =
     (case getLiteralOneOfType thing predicateRef xmlSchemaTypes_boolean of
        None \<Rightarrow> None
      | Some literalString \<Rightarrow> deserialize literalString)"

definition getBooleanAll ::
  "(string \<Rightarrow> bool option) \<Rightarrow> thing \<Rightarrow> predicate_ref \<Rightarrow> bool list" where
  "getBooleanAll deserialize thing predicateRef =
     (let literalStrings = getLiteralAllOfType thing predicateRef xmlSchemaTypes_boolean
      in map the (filter (\<lambda>possibleBoolean. possibleBoolean \<noteq> None)
                    (map deserialize literalStrings)))"

definition getDatetimeOne ::
  "(string \<Rightarrow> 'date option) \<Rightarrow> thing \<Rightarrow> predicate_ref \<Rightarrow> 'date option" where
  "getDatetimeOne deserialize thing predicateRef =
     (case getLiteralOneOfType thing predicateRef xmlSchemaTypes_dateTime of
        None \<Rightarrow> None
      | Some literalString \<Rightarrow> deserialize literalString)"

definition getDatetimeAll ::
  "(string \<Rightarrow> 'date option) \<Rightarrow> thing \<Rightarrow> predicate_ref \<Rightarrow> 'date list" where
  "getDatetimeAll deserialize thing predicateRef =
     (let literalStrings = getLiteralAllOfType thing predicateRef xmlSchemaTypes_dateTime
      in map the (filter (\<lambda>potentialDatetime. potentialDatetime \<noteq> None)
                    (map deserialize literalStrings)))"

definition getDecimalOne ::
  "(string \<Rightarrow> 'number option) \<Rightarrow> thing \<Rightarrow> predicate_ref \<Rightarrow> 'number option" where
  "getDecimalOne deserialize thing predicateRef =
     (case getLiteralOneOfType thing predicateRef xmlSchemaTypes_decimal of
        None \<Rightarrow> None
      | Some literalString \<Rightarrow> deserialize literalString)"

definition getDecimalAll ::
  "(string \<Rightarrow> 'number option) \<Rightarrow> thing \<Rightarrow> predicate_ref \<Rightarrow> 'number list" where
  "getDecimalAll deserialize thing predicateRef =
     (let literalStrings = getLiteralAllOfType thing predicateRef xmlSchemaTypes_decimal
      in map the (filter (\<lambda>potentialDecimal. potentialDecimal \<noteq> None)
                    (map (\<lambda>literalString. deserialize literalString) literalStrings)))"

definition getIntegerOne ::
  "(string \<Rightarrow> 'number option) \<Rightarrow> thing \<Rightarrow> predicate_ref \<Rightarrow> 'number option" where
  "getIntegerOne deserialize thing predicateRef =
     (case getLiteralOneOfType thing predicateRef xmlSchemaTypes_integer of
        None \<Rightarrow> None
      | Some literalString \<Rightarrow> deserialize literalString)"

definition getIntegerAll ::
  "(string \<Rightarrow> 'number option) \<Rightarrow> thing \<Rightarrow> predicate_ref \<Rightarrow> 'number list" where
  "getIntegerAll deserialize thing predicateRef =
     (let literalStrings = getLiteralAllOfType thing predicateRef xmlSchemaTypes_integer
      in map the (filter (\<lambda>potentialInteger. potentialInteger \<noteq> None)
                    (map (\<lambda>literalString. deserialize literalString) literalStrings)))"

definition getStringInLocaleOne ::
  "(string \<Rightarrow> string) \<Rightarrow> thing \<Rightarrow> predicate_ref \<Rightarrow> string \<Rightarrow> string option" where
  "getStringInLocaleOne toLowerCase thing predicateRef locale =
     (let localeStringMatcher = getLocaleStringMatcher toLowerCase predicateRef locale
      in case findOne thing localeStringMatcher of
           None \<Rightarrow> None
         | Some matchingQuad \<Rightarrow> Some (term_value (object matchingQuad)))"

definition getStringInLocaleAll ::
  "(string \<Rightarrow> string) \<Rightarrow> thing \<Rightarrow> predicate_ref \<Rightarrow> string \<Rightarrow> string list" where
  "getStringInLocaleAll toLowerCase thing predicateRef locale =
     (let localeStringMatcher = getLocaleStringMatcher toLowerCase predicateRef locale;
          matchingQuads = findAll thing localeStringMatcher
      in map (\<lambda>quad. term_value (object quad)) matchingQuads)"

definition getStringUnlocalizedOne :: "thing \<Rightarrow> predicate_ref \<Rightarrow> string option" where
  "getStringUnlocalizedOne thing predicateRef =
     getLiteralOneOfType thing predicateRef xmlSchemaTypes_string"

definition getStringUnlocalizedAll :: "thing \<Rightarrow> predicate_ref \<Rightarrow> string list" where
  "getStringUnlocalizedAll thing predicateRef =
     getLiteralAllOfType thing predicateRef xmlSchemaTypes_string"

definition getNamedNodeOne :: "thing \<Rightarrow> predicate_ref \<Rightarrow> rdf_term option" where
  "getNamedNodeOne thing predicateRef =
     (let namedNodeMatcher = getNamedNodeMatcher predicateRef
      in case findOne thing namedNodeMatcher of
           None \<Rightarrow> None
         | Some matchingQuad \<Rightarrow> Some (object matchingQuad))"

definition getNamedNodeAll :: "thing \<Rightarrow> predicate_ref \<Rightarrow> rdf_term list" where
  "getNamedNodeAll thing predicateRef =
     (let namedNodeMatcher = getNamedNodeMatcher predicateRef;
          matchingQuads = findAll thing namedNodeMatcher
      in map (\<lambda>quad. object quad) matchingQuads)"

definition getLiteralOne :: "thing \<Rightarrow> predicate_ref \<Rightarrow> rdf_term option" where
  "getLiteralOne thing predicateRef =
     (let literalMatcher = getLiteralMatcher predicateRef
      in case findOne thing literalMatcher of
           None \<Rightarrow> None
         | Some matchingQuad \<Rightarrow> Some (object matchingQuad))"

definition getLiteralAll :: "thing \<Rightarrow> predicate_ref \<Rightarrow> rdf_term list" where
  "getLiteralAll thing predicateRef =
     (let literalMatcher = getLiteralMatcher predicateRef;
          matchingQuads = findAll thing literalMatcher
      in map (\<lambda>quad. object quad) matchingQuads)"

section \<open>Property reads that can throw\<close>

text \<open>
  JavaScript throws a \<^verbatim>\<open>TypeError\<close> when a property of \<^verbatim>\<open>undefined\<close> is read. Only a
  literal has a \<^verbatim>\<open>datatype\<close> and a \<^verbatim>\<open>language\<close>, so \<^verbatim>\<open>quad.object.datatype.value\<close> and
  \<^verbatim>\<open>quad.object.language.toLowerCase()\<close> throw on every other kind of node. This second
  reading of the same source keeps that error as a value: a matcher returns an error or a
  truth value, the conjunction \<^verbatim>\<open>&&\<close> evaluates its operands from left to right and stops
  at the first false one, and the scanner and the accessors pass an error on.
\<close>

datatype error = TypeError

fun read_datatype_value :: "rdf_term \<Rightarrow> error + string" where
  "read_datatype_value (TLiteral l) = Inr (nn_value (lit_datatype l))"
| "read_datatype_value other = Inl TypeError"

fun read_language_toLowerCase :: "(string \<Rightarrow> string) \<Rightarrow> rdf_term \<Rightarrow> error + string" where
  "read_language_toLowerCase toLowerCase (TLiteral l) = Inr (toLowerCase (lit_language l))"
| "read_language_toLowerCase toLowerCase other = Inl TypeError"

definition map_result :: "('a \<Rightarrow> 'b) \<Rightarrow> error + 'a \<Rightarrow> error + 'b" where
  "map_result f r = (case r of Inl e \<Rightarrow> Inl e | Inr x \<Rightarrow> Inr (f x))"

fun findOne_checked :: "thing \<Rightarrow> (quad \<Rightarrow> error + bool) \<Rightarrow> error + quad option" where
  "findOne_checked [] matcher = Inr None"
| "findOne_checked (quad # rest) matcher =
     (case matcher quad of
        Inl e \<Rightarrow> Inl e
      | Inr accepted \<Rightarrow> if accepted then Inr (Some quad) else findOne_checked rest matcher)"

fun findAll_loop_checked ::
  "thing \<Rightarrow> (quad \<Rightarrow> error + bool) \<Rightarrow> quad list \<Rightarrow> error + quad list" where
  "findAll_loop_checked [] matcher matched = Inr matched"
| "findAll_loop_checked (quad # rest) matcher matched =
     (case matcher quad of
        Inl e \<Rightarrow> Inl e
      | Inr accepted \<Rightarrow>
          findAll_loop_checked rest matcher (if accepted then matched @ [quad] else matched))"

definition findAll_checked :: "thing \<Rightarrow> (quad \<Rightarrow> error + bool) \<Rightarrow> error + quad list" where
  "findAll_checked thing matcher = findAll_loop_checked thing matcher []"

definition getNamedNodeMatcher_checked :: "predicate_ref \<Rightarrow> quad \<Rightarrow> error + bool" where
  "getNamedNodeMatcher_checked predicateRef =
     (let predicateNode = asNamedNode predicateRef
      in (\<lambda>quad. if \<not> equals predicateNode (predicate quad) then Inr False
                 else Inr (isNamedNode (object quad))))"

definition getLiteralMatcher_checked :: "predicate_ref \<Rightarrow> quad \<Rightarrow> error + bool" where
  "getLiteralMatcher_checked predicateRef =
     (let predicateNode = asNamedNode predicateRef
      in (\<lambda>quad. if \<not> equals predicateNode (predicate quad) then Inr False
                 else Inr (isLiteral (object quad))))"

definition getLiteralOfTypeMatcher_checked ::
  "predicate_ref \<Rightarrow> string \<Rightarrow> quad \<Rightarrow> error + bool" where
  "getLiteralOfTypeMatcher_checked predicateRef datatypeIri =
     (let predicateNode = asNamedNode predicateRef
      in (\<lambda>quad. if \<not> equals predicateNode (predicate quad) then Inr False
                 else if \<not> isLiteral (object quad) then Inr False
                 else map_result (\<lambda>v. v = datatypeIri) (read_datatype_value (object quad))))"

definition getLocaleStringMatcher_checked ::
  "(string \<Rightarrow> string) \<Rightarrow> predicate_ref \<Rightarrow> string \<Rightarrow> quad \<Rightarrow> error + bool" where
  "getLocaleStringMatcher_checked toLowerCase predicateRef locale =
     (let predicateNode = asNamedNode predicateRef
      in (\<lambda>quad. if \<not> equals predicateNode (predicate quad) then Inr False
                 else if \<not> isLiteral (object quad) then Inr False
                 else case read_datatype_value (object quad) of
                        Inl e \<Rightarrow> Inl e
                      | Inr v \<Rightarrow>
                          if v \<noteq> xmlSchemaTypes_langString then Inr False
                          else map_result (\<lambda>lower. lower = toLowerCase locale)
                                 (read_language_toLowerCase toLowerCase (object quad))))"

definition getLiteralOneOfType_checked ::
  "thing \<Rightarrow> predicate_ref \<Rightarrow> string \<Rightarrow> error + string option" where
  "getLiteralOneOfType_checked thing predicateRef literalType =
     map_result (map_option (\<lambda>matchingQuad. term_value (object matchingQuad)))
       (findOne_checked thing (getLiteralOfTypeMatcher_checked predicateRef literalType))"

definition getLiteralAllOfType_checked ::
  "thing \<Rightarrow> predicate_ref \<Rightarrow> string \<Rightarrow> error + string list" where
  "getLiteralAllOfType_checked thing predicateRef literalType =
     map_result (map (\<lambda>quad. term_value (object quad)))
       (findAll_checked thing (getLiteralOfTypeMatcher_checked predicateRef literalType))"

definition getIriOne_checked :: "thing \<Rightarrow> predicate_ref \<Rightarrow> error + string option" where
  "getIriOne_checked thing predicateRef =
     map_result (map_option (\<lambda>matchingQuad. term_value (object matchingQuad)))
       (findOne_checked thing (getNamedNodeMatcher_checked predicateRef))"

definition getIriAll_checked :: "thing \<Rightarrow> predicate_ref \<Rightarrow> error + string list" where
  "getIriAll_checked thing predicateRef =
     map_result (map (\<lambda>quad. term_value (object quad)))
       (findAll_checked thing (getNamedNodeMatcher_checked predicateRef))"

text \<open>
  The deserialized accessors: one definition for the four single-value accessors and one
  for the four multi-value ones, which differ in the datatype constant and the
  deserializer only. A deserializer is total and does not throw (section 4.5).
\<close>

definition getDeserializedOne_checked ::
  "string \<Rightarrow> (string \<Rightarrow> 'a option) \<Rightarrow> thing \<Rightarrow> predicate_ref \<Rightarrow> error + 'a option" where
  "getDeserializedOne_checked literalType deserialize thing predicateRef =
     map_result (\<lambda>literalString. case literalString of None \<Rightarrow> None | Some v \<Rightarrow> deserialize v)
       (getLiteralOneOfType_checked thing predicateRef literalType)"

definition getDeserializedAll_checked ::
  "string \<Rightarrow> (string \<Rightarrow> 'a option) \<Rightarrow> thing \<Rightarrow> predicate_ref \<Rightarrow> error + 'a list" where
  "getDeserializedAll_checked literalType deserialize thing predicateRef =
     map_result (\<lambda>literalStrings.
         map the (filter (\<lambda>possible. possible \<noteq> None) (map deserialize literalStrings)))
       (getLiteralAllOfType_checked thing predicateRef literalType)"

definition getBooleanOne_checked ::
  "(string \<Rightarrow> bool option) \<Rightarrow> thing \<Rightarrow> predicate_ref \<Rightarrow> error + bool option" where
  "getBooleanOne_checked = getDeserializedOne_checked xmlSchemaTypes_boolean"

definition getBooleanAll_checked ::
  "(string \<Rightarrow> bool option) \<Rightarrow> thing \<Rightarrow> predicate_ref \<Rightarrow> error + bool list" where
  "getBooleanAll_checked = getDeserializedAll_checked xmlSchemaTypes_boolean"

definition getDatetimeOne_checked ::
  "(string \<Rightarrow> 'date option) \<Rightarrow> thing \<Rightarrow> predicate_ref \<Rightarrow> error + 'date option" where
  "getDatetimeOne_checked = getDeserializedOne_checked xmlSchemaTypes_dateTime"

definition getDatetimeAll_checked ::
  "(string \<Rightarrow> 'date option) \<Rightarrow> thing \<Rightarrow> predicate_ref \<Rightarrow> error + 'date list" where
  "getDatetimeAll_checked = getDeserializedAll_checked xmlSchemaTypes_dateTime"

definition getDecimalOne_checked ::
  "(string \<Rightarrow> 'number option) \<Rightarrow> thing \<Rightarrow> predicate_ref \<Rightarrow> error + 'number option" where
  "getDecimalOne_checked = getDeserializedOne_checked xmlSchemaTypes_decimal"

definition getDecimalAll_checked ::
  "(string \<Rightarrow> 'number option) \<Rightarrow> thing \<Rightarrow> predicate_ref \<Rightarrow> error + 'number list" where
  "getDecimalAll_checked = getDeserializedAll_checked xmlSchemaTypes_decimal"

definition getIntegerOne_checked ::
  "(string \<Rightarrow> 'number option) \<Rightarrow> thing \<Rightarrow> predicate_ref \<Rightarrow> error + 'number option" where
  "getIntegerOne_checked = getDeserializedOne_checked xmlSchemaTypes_integer"

definition getIntegerAll_checked ::
  "(string \<Rightarrow> 'number option) \<Rightarrow> thing \<Rightarrow> predicate_ref \<Rightarrow> error + 'number list" where
  "getIntegerAll_checked = getDeserializedAll_checked xmlSchemaTypes_integer"

definition getStringUnlocalizedOne_checked ::
  "thing \<Rightarrow> predicate_ref \<Rightarrow> error + string option" where
  "getStringUnlocalizedOne_checked thing predicateRef =
     getLiteralOneOfType_checked thing predicateRef xmlSchemaTypes_string"

definition getStringUnlocalizedAll_checked ::
  "thing \<Rightarrow> predicate_ref \<Rightarrow> error + string list" where
  "getStringUnlocalizedAll_checked thing predicateRef =
     getLiteralAllOfType_checked thing predicateRef xmlSchemaTypes_string"

definition getStringInLocaleOne_checked ::
  "(string \<Rightarrow> string) \<Rightarrow> thing \<Rightarrow> predicate_ref \<Rightarrow> string \<Rightarrow> error + string option" where
  "getStringInLocaleOne_checked toLowerCase thing predicateRef locale =
     map_result (map_option (\<lambda>matchingQuad. term_value (object matchingQuad)))
       (findOne_checked thing (getLocaleStringMatcher_checked toLowerCase predicateRef locale))"

definition getStringInLocaleAll_checked ::
  "(string \<Rightarrow> string) \<Rightarrow> thing \<Rightarrow> predicate_ref \<Rightarrow> string \<Rightarrow> error + string list" where
  "getStringInLocaleAll_checked toLowerCase thing predicateRef locale =
     map_result (map (\<lambda>quad. term_value (object quad)))
       (findAll_checked thing (getLocaleStringMatcher_checked toLowerCase predicateRef locale))"

definition getNamedNodeOne_checked :: "thing \<Rightarrow> predicate_ref \<Rightarrow> error + rdf_term option" where
  "getNamedNodeOne_checked thing predicateRef =
     map_result (map_option (\<lambda>matchingQuad. object matchingQuad))
       (findOne_checked thing (getNamedNodeMatcher_checked predicateRef))"

definition getNamedNodeAll_checked :: "thing \<Rightarrow> predicate_ref \<Rightarrow> error + rdf_term list" where
  "getNamedNodeAll_checked thing predicateRef =
     map_result (map (\<lambda>quad. object quad))
       (findAll_checked thing (getNamedNodeMatcher_checked predicateRef))"

definition getLiteralOne_checked :: "thing \<Rightarrow> predicate_ref \<Rightarrow> error + rdf_term option" where
  "getLiteralOne_checked thing predicateRef =
     map_result (map_option (\<lambda>matchingQuad. object matchingQuad))
       (findOne_checked thing (getLiteralMatcher_checked predicateRef))"

definition getLiteralAll_checked :: "thing \<Rightarrow> predicate_ref \<Rightarrow> error + rdf_term list" where
  "getLiteralAll_checked thing predicateRef =
     map_result (map (\<lambda>quad. object quad))
       (findAll_checked thing (getLiteralMatcher_checked predicateRef))"

section \<open>Example statements\<close>

text \<open>
  Concrete quads for the instances below: a statement of the subject
  \<^verbatim>\<open>https://example.org/s\<close> in the default graph, with the predicate IRI and the object
  given.
\<close>

definition exampleQuad :: "string \<Rightarrow> rdf_term \<Rightarrow> quad" where
  "exampleQuad p obj =
     \<lparr>subject = TNamedNode (NamedNode ''https://example.org/s''),
      predicate = TNamedNode (NamedNode p),
      object = obj,
      graph = TDefaultGraph\<rparr>"

definition exampleLiteral :: "string \<Rightarrow> string \<Rightarrow> string \<Rightarrow> string \<Rightarrow> quad" where
  "exampleLiteral p lexical lang datatypeIri =
     exampleQuad p (TLiteral (Literal lexical lang (NamedNode datatypeIri)))"

definition examplePredicate :: string where
  "examplePredicate = ''https://example.org/p''"

text \<open>
  An example of a deserializer, for the instances of results that hold for every
  deserializer: it accepts the lexical form \<^verbatim>\<open>3\<close> and nothing else.
\<close>

definition exampleDeserializer :: "string \<Rightarrow> int option" where
  "exampleDeserializer v = (if v = ''3'' then Some 3 else None)"

text \<open>
  An example of a lower-casing function, for the instances of results that hold for every
  lower-casing function: it replaces each of the ASCII letters \<^verbatim>\<open>A\<close> to \<^verbatim>\<open>Z\<close> by its
  lower-case letter and keeps every other character.
\<close>

definition exampleToLowerCase_char :: "char \<Rightarrow> char" where
  "exampleToLowerCase_char c =
     (case map_of (zip ''ABCDEFGHIJKLMNOPQRSTUVWXYZ'' ''abcdefghijklmnopqrstuvwxyz'') c of
        None \<Rightarrow> c
      | Some lower \<Rightarrow> lower)"

definition exampleToLowerCase :: "string \<Rightarrow> string" where
  "exampleToLowerCase s = map exampleToLowerCase_char s"

text \<open>
  Two example Things. In the first every typed literal is malformed for its datatype; the
  second holds one well-formed statement of every kind the accessors read.
\<close>

definition exampleMalformedThing :: thing where
  "exampleMalformedThing =
     [exampleLiteral examplePredicate ''maybe'' [] xmlSchemaTypes_boolean,
      exampleLiteral examplePredicate ''soon'' [] xmlSchemaTypes_dateTime,
      exampleLiteral examplePredicate ''x.y'' [] xmlSchemaTypes_decimal,
      exampleLiteral examplePredicate ''many'' [] xmlSchemaTypes_integer]"

definition exampleThing :: thing where
  "exampleThing =
     [exampleQuad examplePredicate (TNamedNode (NamedNode ''https://example.org/o'')),
      exampleLiteral examplePredicate ''1'' [] xmlSchemaTypes_boolean,
      exampleLiteral examplePredicate ''3'' [] xmlSchemaTypes_dateTime,
      exampleLiteral examplePredicate ''3'' [] xmlSchemaTypes_decimal,
      exampleLiteral examplePredicate ''3'' [] xmlSchemaTypes_integer,
      exampleLiteral examplePredicate ''hello'' [] xmlSchemaTypes_string,
      exampleLiteral examplePredicate ''bonjour'' ''FR'' xmlSchemaTypes_langString]"

section \<open>The scanner computes a filter\<close>

lemma findAll_loop_filter:
  "findAll_loop thing matcher matched = matched @ filter matcher thing"
  by (induction thing arbitrary: matched) simp_all

lemma findAll_filter: "findAll thing matcher = filter matcher thing"
  by (simp add: findAll_def findAll_loop_filter)

lemma findOne_filter:
  "findOne thing matcher =
     (case filter matcher thing of [] \<Rightarrow> None | quad # rest \<Rightarrow> Some quad)"
  by (induction thing) simp_all

lemma findOne_first_match:
  assumes "\<forall>x \<in> set before. \<not> matcher x" and "matcher quad"
  shows "findOne (before @ quad # later) matcher = Some quad"
  using assms by (induction before) simp_all

lemma equals_iff: "equals n t \<longleftrightarrow> t = TNamedNode n"
  by (cases t; cases n) auto

lemma getLiteralAllOfType_filter:
  "getLiteralAllOfType thing p dt =
     map (\<lambda>quad. term_value (object quad)) (filter (getLiteralOfTypeMatcher p dt) thing)"
  by (simp add: getLiteralAllOfType_def findAll_filter)

lemma getLiteralOneOfType_first:
  "getLiteralOneOfType thing p dt =
     (case getLiteralAllOfType thing p dt of [] \<Rightarrow> None | v # rest \<Rightarrow> Some v)"
  by (simp add: getLiteralOneOfType_def getLiteralAllOfType_filter findOne_filter
      split: list.split)

lemma getIriAll_filter:
  "getIriAll thing p =
     map (\<lambda>quad. term_value (object quad)) (filter (getNamedNodeMatcher p) thing)"
  by (simp add: getIriAll_def findAll_filter)

lemma getIriOne_first:
  "getIriOne thing p = (case getIriAll thing p of [] \<Rightarrow> None | v # rest \<Rightarrow> Some v)"
  by (simp add: getIriOne_def getIriAll_filter findOne_filter split: list.split)

lemma getStringInLocaleAll_filter:
  "getStringInLocaleAll toLowerCase thing p l =
     map (\<lambda>quad. term_value (object quad)) (filter (getLocaleStringMatcher toLowerCase p l) thing)"
  by (simp add: getStringInLocaleAll_def findAll_filter)

lemma getStringInLocaleOne_first:
  "getStringInLocaleOne toLowerCase thing p l =
     (case getStringInLocaleAll toLowerCase thing p l of [] \<Rightarrow> None | v # rest \<Rightarrow> Some v)"
  by (simp add: getStringInLocaleOne_def getStringInLocaleAll_filter findOne_filter
      split: list.split)

text \<open>What a deserializing pair computes from the lexical values found.\<close>

lemma first_None_iff: "(case vs of [] \<Rightarrow> None | v # rest \<Rightarrow> Some v) = None \<longleftrightarrow> vs = []"
  by (cases vs) simp_all

lemma first_Some_hd:
  "(case vs of [] \<Rightarrow> None | v # rest \<Rightarrow> Some v) = Some x \<Longrightarrow> vs \<noteq> [] \<and> hd vs = x"
  by (cases vs) simp_all

lemma kept_empty_imp_first_None:
  "map the (filter (\<lambda>r. r \<noteq> None) (map d vs)) = [] \<Longrightarrow>
     (case (case vs of [] \<Rightarrow> None | v # rest \<Rightarrow> Some v) of
        None \<Rightarrow> None | Some v \<Rightarrow> d v) = None"
  by (cases vs) (auto split: if_splits)

lemma first_Some_hd_kept:
  "(case (case vs of [] \<Rightarrow> None | v # rest \<Rightarrow> Some v) of
      None \<Rightarrow> None | Some v \<Rightarrow> d v) = Some x \<Longrightarrow>
   map the (filter (\<lambda>r. r \<noteq> None) (map d vs)) \<noteq> [] \<and>
   hd (map the (filter (\<lambda>r. r \<noteq> None) (map d vs))) = x"
  by (cases vs) auto

lemma kept_concat:
  "map the (filter (\<lambda>r. r \<noteq> None) (map d (map f (filter m qs)))) =
     concat (map (\<lambda>q. if m q then (case d (f q) of None \<Rightarrow> [] | Some v \<Rightarrow> [v]) else []) qs)"
  by (induction qs) (auto split: option.splits)

lemmas one_defs = getBooleanOne_def getDatetimeOne_def getDecimalOne_def getIntegerOne_def
lemmas all_defs = getBooleanAll_def getDatetimeAll_def getDecimalAll_def getIntegerAll_def

section \<open>Results on the accessors\<close>

text \<open>
  C3. For every Thing and predicate, \<^verbatim>\<open>getIriAll\<close> returns, in the iteration order of the
  Thing, the \<^verbatim>\<open>.value\<close> of the object of exactly those statements whose predicate is the
  canonical named node of the predicate argument and whose object is an IRI reference.
  Nothing is deduplicated: the result of a concatenation of two statement lists is the
  concatenation of the results, so a statement that occurs twice is reported twice.
\<close>

theorem getIriAll_is_filtered_values:
  "getIriAll thing p =
     map (\<lambda>quad. term_value (object quad))
       (filter (\<lambda>quad. predicate quad = TNamedNode (asNamedNode p) \<and> isNamedNode (object quad))
          thing)
   \<and> getIriAll (thing @ others) p = getIriAll thing p @ getIriAll others p"
  by (simp add: getIriAll_filter getNamedNodeMatcher_def equals_iff)

text \<open>
  C1, as stated, fails for the deserializing accessors. A Thing with the boolean literals
  \<^verbatim>\<open>maybe\<close> and \<^verbatim>\<open>1\<close> under one predicate, in this order: \<^verbatim>\<open>getBooleanOne\<close> is \<^verbatim>\<open>null\<close>, since
  the first literal found does not deserialize, while \<^verbatim>\<open>getBooleanAll\<close> is not empty.
\<close>

theorem getBooleanOne_null_getBooleanAll_nonempty:
  "getBooleanOne deserializeBoolean
     [exampleLiteral examplePredicate ''maybe'' [] xmlSchemaTypes_boolean,
      exampleLiteral examplePredicate ''1'' [] xmlSchemaTypes_boolean]
     (IriString examplePredicate) = None
   \<and> getBooleanAll deserializeBoolean
     [exampleLiteral examplePredicate ''maybe'' [] xmlSchemaTypes_boolean,
      exampleLiteral examplePredicate ''1'' [] xmlSchemaTypes_boolean]
     (IriString examplePredicate) = [True]
   \<and> \<not> (getBooleanOne deserializeBoolean
          [exampleLiteral examplePredicate ''maybe'' [] xmlSchemaTypes_boolean,
           exampleLiteral examplePredicate ''1'' [] xmlSchemaTypes_boolean]
          (IriString examplePredicate) = None
        \<longleftrightarrow> getBooleanAll deserializeBoolean
          [exampleLiteral examplePredicate ''maybe'' [] xmlSchemaTypes_boolean,
           exampleLiteral examplePredicate ''1'' [] xmlSchemaTypes_boolean]
          (IriString examplePredicate) = [])"
  by code_simp

text \<open>
  C1, amended. For the accessors without a deserialization step (IRI, unlocalized string,
  string in a locale) the single-value accessor returns \<^verbatim>\<open>null\<close> if and only if the
  multi-value accessor returns the empty sequence. For the boolean, datetime, decimal and
  integer accessors, whatever the deserializer, an empty result of the multi-value accessor
  implies \<^verbatim>\<open>null\<close> from the single-value accessor; the converse is not claimed.
\<close>

theorem getXAll_empty_imp_getXOne_null:
  "(getIriOne thing p = None \<longleftrightarrow> getIriAll thing p = []) \<and>
   (getStringUnlocalizedOne thing p = None \<longleftrightarrow> getStringUnlocalizedAll thing p = []) \<and>
   (getStringInLocaleOne toLowerCase thing p locale = None \<longleftrightarrow>
      getStringInLocaleAll toLowerCase thing p locale = []) \<and>
   (getBooleanAll deserializeB thing p = [] \<longrightarrow> getBooleanOne deserializeB thing p = None) \<and>
   (getDatetimeAll deserializeT thing p = [] \<longrightarrow> getDatetimeOne deserializeT thing p = None) \<and>
   (getDecimalAll deserializeD thing p = [] \<longrightarrow> getDecimalOne deserializeD thing p = None) \<and>
   (getIntegerAll deserializeI thing p = [] \<longrightarrow> getIntegerOne deserializeI thing p = None)"
proof (intro conjI impI)
  show "getIriOne thing p = None \<longleftrightarrow> getIriAll thing p = []"
    by (simp add: getIriOne_first first_None_iff)
  show "getStringUnlocalizedOne thing p = None \<longleftrightarrow> getStringUnlocalizedAll thing p = []"
    by (simp add: getStringUnlocalizedOne_def getStringUnlocalizedAll_def
        getLiteralOneOfType_first first_None_iff)
  show "getStringInLocaleOne toLowerCase thing p locale = None \<longleftrightarrow>
      getStringInLocaleAll toLowerCase thing p locale = []"
    by (simp add: getStringInLocaleOne_first first_None_iff)
  show "getBooleanOne deserializeB thing p = None" if "getBooleanAll deserializeB thing p = []"
    using that kept_empty_imp_first_None [of deserializeB]
    by (simp add: getBooleanOne_def getBooleanAll_def getLiteralOneOfType_first)
  show "getDatetimeOne deserializeT thing p = None" if "getDatetimeAll deserializeT thing p = []"
    using that kept_empty_imp_first_None [of deserializeT]
    by (simp add: getDatetimeOne_def getDatetimeAll_def getLiteralOneOfType_first)
  show "getDecimalOne deserializeD thing p = None" if "getDecimalAll deserializeD thing p = []"
    using that kept_empty_imp_first_None [of deserializeD]
    by (simp add: getDecimalOne_def getDecimalAll_def getLiteralOneOfType_first)
  show "getIntegerOne deserializeI thing p = None" if "getIntegerAll deserializeI thing p = []"
    using that kept_empty_imp_first_None [of deserializeI]
    by (simp add: getIntegerOne_def getIntegerAll_def getLiteralOneOfType_first)
qed

text \<open>
  An instance: a Thing whose boolean, datetime, decimal and integer literals under the
  predicate are all malformed. Every multi-value accessor returns the empty sequence and
  every single-value accessor \<^verbatim>\<open>null\<close>.
\<close>

theorem getXAll_empty_imp_getXOne_null_witness:
  "(getBooleanAll deserializeBoolean exampleMalformedThing (IriString examplePredicate) = []
    \<and> getDatetimeAll exampleDeserializer exampleMalformedThing (IriString examplePredicate) = []
    \<and> getDecimalAll exampleDeserializer exampleMalformedThing (IriString examplePredicate) = []
    \<and> getIntegerAll exampleDeserializer exampleMalformedThing (IriString examplePredicate) = [])
   \<and> (getBooleanOne deserializeBoolean exampleMalformedThing (IriString examplePredicate) = None
    \<and> getDatetimeOne exampleDeserializer exampleMalformedThing (IriString examplePredicate) = None
    \<and> getDecimalOne exampleDeserializer exampleMalformedThing (IriString examplePredicate) = None
    \<and> getIntegerOne exampleDeserializer exampleMalformedThing (IriString examplePredicate) = None)"
  (is "?empty \<and> ?null")
proof -
  have empty: ?empty
    by code_simp
  have ?null
    using empty
      getXAll_empty_imp_getXOne_null [where
        thing = exampleMalformedThing and p = "IriString examplePredicate" and
        deserializeB = deserializeBoolean and deserializeT = exampleDeserializer and
        deserializeD = exampleDeserializer and deserializeI = exampleDeserializer]
    by simp
  with empty show ?thesis
    by simp
qed

text \<open>
  C5. For every accessor pair, every Thing and predicate (and locale, and deserializer):
  when the single-value accessor returns a found value, the multi-value accessor's result
  is not empty and that value is its first element.
\<close>

theorem getXOne_found_is_first_of_getXAll:
  "(getIriOne thing p = Some iri \<longrightarrow>
      getIriAll thing p \<noteq> [] \<and> hd (getIriAll thing p) = iri) \<and>
   (getStringUnlocalizedOne thing p = Some str \<longrightarrow>
      getStringUnlocalizedAll thing p \<noteq> [] \<and> hd (getStringUnlocalizedAll thing p) = str) \<and>
   (getStringInLocaleOne toLowerCase thing p locale = Some localized \<longrightarrow>
      getStringInLocaleAll toLowerCase thing p locale \<noteq> [] \<and>
      hd (getStringInLocaleAll toLowerCase thing p locale) = localized) \<and>
   (getBooleanOne deserializeB thing p = Some b \<longrightarrow>
      getBooleanAll deserializeB thing p \<noteq> [] \<and> hd (getBooleanAll deserializeB thing p) = b) \<and>
   (getDatetimeOne deserializeT thing p = Some t \<longrightarrow>
      getDatetimeAll deserializeT thing p \<noteq> [] \<and> hd (getDatetimeAll deserializeT thing p) = t) \<and>
   (getDecimalOne deserializeD thing p = Some d \<longrightarrow>
      getDecimalAll deserializeD thing p \<noteq> [] \<and> hd (getDecimalAll deserializeD thing p) = d) \<and>
   (getIntegerOne deserializeI thing p = Some i \<longrightarrow>
      getIntegerAll deserializeI thing p \<noteq> [] \<and> hd (getIntegerAll deserializeI thing p) = i)"
proof (intro conjI impI)
  assume "getIriOne thing p = Some iri"
  then show "getIriAll thing p \<noteq> []" and "hd (getIriAll thing p) = iri"
    using first_Some_hd [of "getIriAll thing p" iri] by (simp_all add: getIriOne_first)
next
  assume "getStringUnlocalizedOne thing p = Some str"
  then show "getStringUnlocalizedAll thing p \<noteq> []"
    and "hd (getStringUnlocalizedAll thing p) = str"
    using first_Some_hd [of "getLiteralAllOfType thing p xmlSchemaTypes_string" str]
    by (simp_all add: getStringUnlocalizedOne_def getStringUnlocalizedAll_def
        getLiteralOneOfType_first)
next
  assume "getStringInLocaleOne toLowerCase thing p locale = Some localized"
  then show "getStringInLocaleAll toLowerCase thing p locale \<noteq> []"
    and "hd (getStringInLocaleAll toLowerCase thing p locale) = localized"
    using first_Some_hd [of "getStringInLocaleAll toLowerCase thing p locale" localized]
    by (simp_all add: getStringInLocaleOne_first)
next
  assume "getBooleanOne deserializeB thing p = Some b"
  then show "getBooleanAll deserializeB thing p \<noteq> []"
    and "hd (getBooleanAll deserializeB thing p) = b"
    using first_Some_hd_kept [where vs = "getLiteralAllOfType thing p xmlSchemaTypes_boolean" and d = deserializeB and x = b]
    by (simp_all add: getBooleanOne_def getBooleanAll_def getLiteralOneOfType_first)
next
  assume "getDatetimeOne deserializeT thing p = Some t"
  then show "getDatetimeAll deserializeT thing p \<noteq> []"
    and "hd (getDatetimeAll deserializeT thing p) = t"
    using first_Some_hd_kept [where vs = "getLiteralAllOfType thing p xmlSchemaTypes_dateTime" and d = deserializeT and x = t]
    by (simp_all add: getDatetimeOne_def getDatetimeAll_def getLiteralOneOfType_first)
next
  assume "getDecimalOne deserializeD thing p = Some d"
  then show "getDecimalAll deserializeD thing p \<noteq> []"
    and "hd (getDecimalAll deserializeD thing p) = d"
    using first_Some_hd_kept [where vs = "getLiteralAllOfType thing p xmlSchemaTypes_decimal" and d = deserializeD and x = d]
    by (simp_all add: getDecimalOne_def getDecimalAll_def getLiteralOneOfType_first)
next
  assume "getIntegerOne deserializeI thing p = Some i"
  then show "getIntegerAll deserializeI thing p \<noteq> []"
    and "hd (getIntegerAll deserializeI thing p) = i"
    using first_Some_hd_kept [where vs = "getLiteralAllOfType thing p xmlSchemaTypes_integer" and d = deserializeI and x = i]
    by (simp_all add: getIntegerOne_def getIntegerAll_def getLiteralOneOfType_first)
qed

text \<open>
  An instance: on the example Thing every single-value accessor finds its value, and it
  is the head of the multi-value result.
\<close>

theorem getXOne_found_is_first_of_getXAll_witness:
  "(getIriOne exampleThing (IriString examplePredicate) = Some ''https://example.org/o''
    \<and> getStringUnlocalizedOne exampleThing (IriString examplePredicate) = Some ''hello''
    \<and> getStringInLocaleOne exampleToLowerCase exampleThing (IriString examplePredicate) ''fr'' = Some ''bonjour''
    \<and> getBooleanOne deserializeBoolean exampleThing (IriString examplePredicate) = Some True
    \<and> getDatetimeOne exampleDeserializer exampleThing (IriString examplePredicate) = Some 3
    \<and> getDecimalOne exampleDeserializer exampleThing (IriString examplePredicate) = Some 3
    \<and> getIntegerOne exampleDeserializer exampleThing (IriString examplePredicate) = Some 3)
   \<and> (hd (getIriAll exampleThing (IriString examplePredicate)) = ''https://example.org/o''
    \<and> hd (getStringUnlocalizedAll exampleThing (IriString examplePredicate)) = ''hello''
    \<and> hd (getStringInLocaleAll exampleToLowerCase exampleThing (IriString examplePredicate) ''fr'') = ''bonjour''
    \<and> hd (getBooleanAll deserializeBoolean exampleThing (IriString examplePredicate)) = True
    \<and> hd (getDatetimeAll exampleDeserializer exampleThing (IriString examplePredicate)) = 3
    \<and> hd (getDecimalAll exampleDeserializer exampleThing (IriString examplePredicate)) = 3
    \<and> hd (getIntegerAll exampleDeserializer exampleThing (IriString examplePredicate)) = 3)"
  (is "?found \<and> ?first")
proof -
  have found: ?found
    by code_simp
  have ?first
    using found
      getXOne_found_is_first_of_getXAll [where
        thing = exampleThing and p = "IriString examplePredicate" and
        iri = "''https://example.org/o''" and str = "''hello''" and
        toLowerCase = exampleToLowerCase and localized = "''bonjour''" and
        deserializeB = deserializeBoolean and b = True and
        deserializeT = exampleDeserializer and t = 3 and
        deserializeD = exampleDeserializer and d = 3 and
        deserializeI = exampleDeserializer and i = 3, of "''fr''"]
    by simp
  with found show ?thesis
    by simp
qed

text \<open>
  C2. A datatype-qualified single-value accessor looks at the first statement that matches
  on predicate and datatype and at no other: when no statement before \<open>quad\<close> matches and
  \<open>quad\<close> does, the result is the deserializer's answer on the lexical value of \<open>quad\<close>,
  whatever statements come later. So the result is \<^verbatim>\<open>null\<close> when that lexical value does
  not deserialize, also when a later statement would: with the boolean literals \<^verbatim>\<open>maybe\<close>
  and \<^verbatim>\<open>true\<close> in this order, \<^verbatim>\<open>getBooleanOne\<close> is \<^verbatim>\<open>null\<close> although \<^verbatim>\<open>getBooleanAll\<close> finds
  the second.
\<close>

theorem getXOne_inspects_first_match_only:
  "(getLiteralOfTypeMatcher p xmlSchemaTypes_boolean quadB \<and>
    (\<forall>x \<in> set before. \<not> getLiteralOfTypeMatcher p xmlSchemaTypes_boolean x) \<longrightarrow>
      getBooleanOne deserializeB (before @ quadB # later) p
        = deserializeB (term_value (object quadB))) \<and>
   (getLiteralOfTypeMatcher p xmlSchemaTypes_dateTime quadT \<and>
    (\<forall>x \<in> set before. \<not> getLiteralOfTypeMatcher p xmlSchemaTypes_dateTime x) \<longrightarrow>
      getDatetimeOne deserializeT (before @ quadT # later) p
        = deserializeT (term_value (object quadT))) \<and>
   (getLiteralOfTypeMatcher p xmlSchemaTypes_decimal quadD \<and>
    (\<forall>x \<in> set before. \<not> getLiteralOfTypeMatcher p xmlSchemaTypes_decimal x) \<longrightarrow>
      getDecimalOne deserializeD (before @ quadD # later) p
        = deserializeD (term_value (object quadD))) \<and>
   (getLiteralOfTypeMatcher p xmlSchemaTypes_integer quadI \<and>
    (\<forall>x \<in> set before. \<not> getLiteralOfTypeMatcher p xmlSchemaTypes_integer x) \<longrightarrow>
      getIntegerOne deserializeI (before @ quadI # later) p
        = deserializeI (term_value (object quadI))) \<and>
   getBooleanOne deserializeBoolean
     [exampleLiteral examplePredicate ''maybe'' [] xmlSchemaTypes_boolean,
      exampleLiteral examplePredicate ''true'' [] xmlSchemaTypes_boolean]
     (IriString examplePredicate) = None \<and>
   getBooleanAll deserializeBoolean
     [exampleLiteral examplePredicate ''maybe'' [] xmlSchemaTypes_boolean,
      exampleLiteral examplePredicate ''true'' [] xmlSchemaTypes_boolean]
     (IriString examplePredicate) = [True]"
proof (intro conjI impI)
  show "getBooleanOne deserializeBoolean
     [exampleLiteral examplePredicate ''maybe'' [] xmlSchemaTypes_boolean,
      exampleLiteral examplePredicate ''true'' [] xmlSchemaTypes_boolean]
     (IriString examplePredicate) = None"
    by code_simp
  show "getBooleanAll deserializeBoolean
     [exampleLiteral examplePredicate ''maybe'' [] xmlSchemaTypes_boolean,
      exampleLiteral examplePredicate ''true'' [] xmlSchemaTypes_boolean]
     (IriString examplePredicate) = [True]"
    by code_simp
qed (simp_all add: one_defs getLiteralOneOfType_def findOne_first_match)

text \<open>
  An instance: an IRI statement, then a malformed literal, then the example Thing with
  its well-formed literals of every datatype. Each accessor returns \<^verbatim>\<open>null\<close>.
\<close>

theorem getXOne_inspects_first_match_only_witness:
  "(getLiteralOfTypeMatcher (IriString examplePredicate) xmlSchemaTypes_boolean
      (exampleLiteral examplePredicate ''maybe'' [] xmlSchemaTypes_boolean)
    \<and> getLiteralOfTypeMatcher (IriString examplePredicate) xmlSchemaTypes_dateTime
      (exampleLiteral examplePredicate ''soon'' [] xmlSchemaTypes_dateTime)
    \<and> getLiteralOfTypeMatcher (IriString examplePredicate) xmlSchemaTypes_decimal
      (exampleLiteral examplePredicate ''x.y'' [] xmlSchemaTypes_decimal)
    \<and> getLiteralOfTypeMatcher (IriString examplePredicate) xmlSchemaTypes_integer
      (exampleLiteral examplePredicate ''many'' [] xmlSchemaTypes_integer)
    \<and> \<not> getLiteralOfTypeMatcher (IriString examplePredicate) xmlSchemaTypes_boolean
        (exampleQuad examplePredicate (TNamedNode (NamedNode ''https://example.org/o'')))
    \<and> \<not> getLiteralOfTypeMatcher (IriString examplePredicate) xmlSchemaTypes_dateTime
        (exampleQuad examplePredicate (TNamedNode (NamedNode ''https://example.org/o'')))
    \<and> \<not> getLiteralOfTypeMatcher (IriString examplePredicate) xmlSchemaTypes_decimal
        (exampleQuad examplePredicate (TNamedNode (NamedNode ''https://example.org/o'')))
    \<and> \<not> getLiteralOfTypeMatcher (IriString examplePredicate) xmlSchemaTypes_integer
        (exampleQuad examplePredicate (TNamedNode (NamedNode ''https://example.org/o''))))
   \<and> (getBooleanOne deserializeBoolean
        ([exampleQuad examplePredicate (TNamedNode (NamedNode ''https://example.org/o''))]
          @ exampleLiteral examplePredicate ''maybe'' [] xmlSchemaTypes_boolean # exampleThing)
        (IriString examplePredicate) = None
    \<and> getDatetimeOne exampleDeserializer
        ([exampleQuad examplePredicate (TNamedNode (NamedNode ''https://example.org/o''))]
          @ exampleLiteral examplePredicate ''soon'' [] xmlSchemaTypes_dateTime # exampleThing)
        (IriString examplePredicate) = None
    \<and> getDecimalOne exampleDeserializer
        ([exampleQuad examplePredicate (TNamedNode (NamedNode ''https://example.org/o''))]
          @ exampleLiteral examplePredicate ''x.y'' [] xmlSchemaTypes_decimal # exampleThing)
        (IriString examplePredicate) = None
    \<and> getIntegerOne exampleDeserializer
        ([exampleQuad examplePredicate (TNamedNode (NamedNode ''https://example.org/o''))]
          @ exampleLiteral examplePredicate ''many'' [] xmlSchemaTypes_integer # exampleThing)
        (IriString examplePredicate) = None)"
  (is "?first \<and> ?null")
proof -
  have first: ?first
    by code_simp
  have malformed:
    "deserializeBoolean (term_value (object
        (exampleLiteral examplePredicate ''maybe'' [] xmlSchemaTypes_boolean))) = None"
    "exampleDeserializer (term_value (object
        (exampleLiteral examplePredicate ''soon'' [] xmlSchemaTypes_dateTime))) = None"
    "exampleDeserializer (term_value (object
        (exampleLiteral examplePredicate ''x.y'' [] xmlSchemaTypes_decimal))) = None"
    "exampleDeserializer (term_value (object
        (exampleLiteral examplePredicate ''many'' [] xmlSchemaTypes_integer))) = None"
    by code_simp+
  have ?null
    using first malformed
      getXOne_inspects_first_match_only [of
        "IriString examplePredicate"
        "exampleLiteral examplePredicate ''maybe'' [] xmlSchemaTypes_boolean"
        "[exampleQuad examplePredicate (TNamedNode (NamedNode ''https://example.org/o''))]"
        deserializeBoolean exampleThing
        "exampleLiteral examplePredicate ''soon'' [] xmlSchemaTypes_dateTime"
        exampleDeserializer
        "exampleLiteral examplePredicate ''x.y'' [] xmlSchemaTypes_decimal"
        exampleDeserializer
        "exampleLiteral examplePredicate ''many'' [] xmlSchemaTypes_integer"
        exampleDeserializer]
    by simp
  with first show ?thesis
    by simp
qed

text \<open>
  C4. A multi-value accessor with a deserialization step goes through the statements in
  order, and each statement contributes on its own: its deserialized value when it matches
  on predicate and datatype and its lexical value deserializes, and nothing otherwise. A
  failing entry is dropped, no placeholder takes its place, and the entries that remain
  keep their order. In particular the boolean literals \<^verbatim>\<open>true\<close> and \<^verbatim>\<open>maybe\<close>, in either
  order, yield \<^verbatim>\<open>[true]\<close>.
\<close>

theorem getXAll_drops_failures_keeps_order:
  "getBooleanAll deserializeB thing p =
     concat (map (\<lambda>quad. if getLiteralOfTypeMatcher p xmlSchemaTypes_boolean quad
                          then (case deserializeB (term_value (object quad)) of
                                  None \<Rightarrow> [] | Some v \<Rightarrow> [v])
                          else []) thing) \<and>
   getDatetimeAll deserializeT thing p =
     concat (map (\<lambda>quad. if getLiteralOfTypeMatcher p xmlSchemaTypes_dateTime quad
                          then (case deserializeT (term_value (object quad)) of
                                  None \<Rightarrow> [] | Some v \<Rightarrow> [v])
                          else []) thing) \<and>
   getDecimalAll deserializeD thing p =
     concat (map (\<lambda>quad. if getLiteralOfTypeMatcher p xmlSchemaTypes_decimal quad
                          then (case deserializeD (term_value (object quad)) of
                                  None \<Rightarrow> [] | Some v \<Rightarrow> [v])
                          else []) thing) \<and>
   getIntegerAll deserializeI thing p =
     concat (map (\<lambda>quad. if getLiteralOfTypeMatcher p xmlSchemaTypes_integer quad
                          then (case deserializeI (term_value (object quad)) of
                                  None \<Rightarrow> [] | Some v \<Rightarrow> [v])
                          else []) thing) \<and>
   getBooleanAll deserializeBoolean
     [exampleLiteral examplePredicate ''true'' [] xmlSchemaTypes_boolean,
      exampleLiteral examplePredicate ''maybe'' [] xmlSchemaTypes_boolean]
     (IriString examplePredicate) = [True] \<and>
   getBooleanAll deserializeBoolean
     [exampleLiteral examplePredicate ''maybe'' [] xmlSchemaTypes_boolean,
      exampleLiteral examplePredicate ''true'' [] xmlSchemaTypes_boolean]
     (IriString examplePredicate) = [True]"
proof (intro conjI)
  show "getBooleanAll deserializeBoolean
     [exampleLiteral examplePredicate ''true'' [] xmlSchemaTypes_boolean,
      exampleLiteral examplePredicate ''maybe'' [] xmlSchemaTypes_boolean]
     (IriString examplePredicate) = [True]"
    by code_simp
  show "getBooleanAll deserializeBoolean
     [exampleLiteral examplePredicate ''maybe'' [] xmlSchemaTypes_boolean,
      exampleLiteral examplePredicate ''true'' [] xmlSchemaTypes_boolean]
     (IriString examplePredicate) = [True]"
    by code_simp
qed (simp_all only: all_defs Let_def getLiteralAllOfType_filter kept_concat)


subsection \<open>Statements of another datatype\<close>

text \<open>
  A matcher for one datatype rejects a literal of another, and a statement that a matcher
  rejects can be taken out of the Thing without changing what the accessors return.
\<close>

lemma xmlSchemaTypes_distinct:
  "xmlSchemaTypes_decimal \<noteq> xmlSchemaTypes_integer"
  "xmlSchemaTypes_integer \<noteq> xmlSchemaTypes_decimal"
  "xmlSchemaTypes_langString \<noteq> xmlSchemaTypes_string"
  "xmlSchemaTypes_string \<noteq> xmlSchemaTypes_langString"
  by (simp_all add: xmlSchemaTypes_decimal_def xmlSchemaTypes_integer_def
      xmlSchemaTypes_langString_def xmlSchemaTypes_string_def)

lemma getLiteralOfTypeMatcher_other_datatype:
  "dt \<noteq> dt' \<Longrightarrow>
     \<not> getLiteralOfTypeMatcher p dt'
         \<lparr>subject = s, predicate = pr,
          object = TLiteral (Literal v lang (NamedNode dt)), graph = g\<rparr>"
  by (simp add: getLiteralOfTypeMatcher_def)

lemma getLocaleStringMatcher_other_datatype:
  "dt \<noteq> xmlSchemaTypes_langString \<Longrightarrow>
     \<not> getLocaleStringMatcher toLowerCase p l
         \<lparr>subject = s, predicate = pr,
          object = TLiteral (Literal v lang (NamedNode dt)), graph = g\<rparr>"
  by (simp add: getLocaleStringMatcher_def)

lemma getLiteralOneOfType_skip:
  "\<not> getLiteralOfTypeMatcher p dt quad \<Longrightarrow>
     getLiteralOneOfType (before @ quad # later) p dt = getLiteralOneOfType (before @ later) p dt"
  by (simp add: getLiteralOneOfType_first getLiteralAllOfType_filter)

lemma getLiteralAllOfType_skip:
  "\<not> getLiteralOfTypeMatcher p dt quad \<Longrightarrow>
     getLiteralAllOfType (before @ quad # later) p dt = getLiteralAllOfType (before @ later) p dt"
  by (simp add: getLiteralAllOfType_filter)

lemma getStringInLocale_skip:
  "\<not> getLocaleStringMatcher toLowerCase p l quad \<Longrightarrow>
     getStringInLocaleOne toLowerCase (before @ quad # later) p l
       = getStringInLocaleOne toLowerCase (before @ later) p l
     \<and> getStringInLocaleAll toLowerCase (before @ quad # later) p l
       = getStringInLocaleAll toLowerCase (before @ later) p l"
  by (simp add: getStringInLocaleOne_first getStringInLocaleAll_filter)

text \<open>
  C7. Datatypes are compared by string equality on the datatype IRI. A literal of datatype
  decimal, whatever its lexical form (\<^verbatim>\<open>3\<close> included), its predicate and its place in the
  Thing, contributes nothing to \<^verbatim>\<open>getIntegerOne\<close> and \<^verbatim>\<open>getIntegerAll\<close>: they return what they
  return on the Thing without it. The same holds for a literal of datatype integer and
  \<^verbatim>\<open>getDecimalOne\<close>, \<^verbatim>\<open>getDecimalAll\<close>. On a Thing that holds only the decimal literal \<^verbatim>\<open>3\<close>
  the integer accessors return \<^verbatim>\<open>null\<close> and the empty sequence, and likewise with the two
  datatypes exchanged.
\<close>

theorem exact_datatype_discrimination:
  "getIntegerOne deserializeI
     (before @ \<lparr>subject = s, predicate = pr,
        object = TLiteral (Literal lexical lang (NamedNode xmlSchemaTypes_decimal)),
        graph = g\<rparr> # later) p
     = getIntegerOne deserializeI (before @ later) p \<and>
   getIntegerAll deserializeI
     (before @ \<lparr>subject = s, predicate = pr,
        object = TLiteral (Literal lexical lang (NamedNode xmlSchemaTypes_decimal)),
        graph = g\<rparr> # later) p
     = getIntegerAll deserializeI (before @ later) p \<and>
   getDecimalOne deserializeD
     (before @ \<lparr>subject = s, predicate = pr,
        object = TLiteral (Literal lexical lang (NamedNode xmlSchemaTypes_integer)),
        graph = g\<rparr> # later) p
     = getDecimalOne deserializeD (before @ later) p \<and>
   getDecimalAll deserializeD
     (before @ \<lparr>subject = s, predicate = pr,
        object = TLiteral (Literal lexical lang (NamedNode xmlSchemaTypes_integer)),
        graph = g\<rparr> # later) p
     = getDecimalAll deserializeD (before @ later) p \<and>
   getIntegerOne deserializeI
     [exampleLiteral examplePredicate ''3'' [] xmlSchemaTypes_decimal]
     (IriString examplePredicate) = None \<and>
   getIntegerAll deserializeI
     [exampleLiteral examplePredicate ''3'' [] xmlSchemaTypes_decimal]
     (IriString examplePredicate) = [] \<and>
   getDecimalOne deserializeD
     [exampleLiteral examplePredicate ''3'' [] xmlSchemaTypes_integer]
     (IriString examplePredicate) = None \<and>
   getDecimalAll deserializeD
     [exampleLiteral examplePredicate ''3'' [] xmlSchemaTypes_integer]
     (IriString examplePredicate) = []"
proof -
  note skip =
    getLiteralOfTypeMatcher_other_datatype [OF xmlSchemaTypes_distinct(1)]
    getLiteralOfTypeMatcher_other_datatype [OF xmlSchemaTypes_distinct(2)]
  have removable:
    "getIntegerOne deserializeI
       (before' @ \<lparr>subject = s', predicate = pr',
          object = TLiteral (Literal lexical' lang' (NamedNode xmlSchemaTypes_decimal)),
          graph = g'\<rparr> # later') p'
       = getIntegerOne deserializeI (before' @ later') p'"
    "getIntegerAll deserializeI
       (before' @ \<lparr>subject = s', predicate = pr',
          object = TLiteral (Literal lexical' lang' (NamedNode xmlSchemaTypes_decimal)),
          graph = g'\<rparr> # later') p'
       = getIntegerAll deserializeI (before' @ later') p'"
    "getDecimalOne deserializeD
       (before' @ \<lparr>subject = s', predicate = pr',
          object = TLiteral (Literal lexical' lang' (NamedNode xmlSchemaTypes_integer)),
          graph = g'\<rparr> # later') p'
       = getDecimalOne deserializeD (before' @ later') p'"
    "getDecimalAll deserializeD
       (before' @ \<lparr>subject = s', predicate = pr',
          object = TLiteral (Literal lexical' lang' (NamedNode xmlSchemaTypes_integer)),
          graph = g'\<rparr> # later') p'
       = getDecimalAll deserializeD (before' @ later') p'"
    for before' later' :: thing and s' pr' g' lexical' lang' p'
    by (simp_all add: one_defs all_defs getLiteralOneOfType_skip getLiteralAllOfType_skip skip)
  have empty:
    "getIntegerOne deserializeI [] p' = None" "getIntegerAll deserializeI [] p' = []"
    "getDecimalOne deserializeD [] p' = None" "getDecimalAll deserializeD [] p' = []"
    for p'
    by (simp_all add: one_defs all_defs getLiteralOneOfType_first getLiteralAllOfType_filter)
  show ?thesis
    using removable [of "[]" _ _ _ _ _ "[]"] empty
    by (simp add: removable exampleLiteral_def exampleQuad_def)
qed

text \<open>
  C10. The two families of string accessors see disjoint sets of literals. A literal of the
  language-tagged-string datatype contributes nothing to \<^verbatim>\<open>getStringUnlocalizedOne\<close> and
  \<^verbatim>\<open>getStringUnlocalizedAll\<close>, a literal of the plain string datatype contributes nothing to
  \<^verbatim>\<open>getStringInLocaleOne\<close> and \<^verbatim>\<open>getStringInLocaleAll\<close> in any locale, and no statement is
  accepted both by the matcher of the unlocalized accessors and by the matcher of the
  localized ones, whatever the predicates and the locale.
\<close>

theorem string_accessor_families_disjoint:
  "getStringUnlocalizedOne
     (before @ \<lparr>subject = s, predicate = pr,
        object = TLiteral (Literal lexical lang (NamedNode xmlSchemaTypes_langString)),
        graph = g\<rparr> # later) p
     = getStringUnlocalizedOne (before @ later) p \<and>
   getStringUnlocalizedAll
     (before @ \<lparr>subject = s, predicate = pr,
        object = TLiteral (Literal lexical lang (NamedNode xmlSchemaTypes_langString)),
        graph = g\<rparr> # later) p
     = getStringUnlocalizedAll (before @ later) p \<and>
   getStringInLocaleOne toLowerCase
     (before @ \<lparr>subject = s, predicate = pr,
        object = TLiteral (Literal lexical lang (NamedNode xmlSchemaTypes_string)),
        graph = g\<rparr> # later) p locale
     = getStringInLocaleOne toLowerCase (before @ later) p locale \<and>
   getStringInLocaleAll toLowerCase
     (before @ \<lparr>subject = s, predicate = pr,
        object = TLiteral (Literal lexical lang (NamedNode xmlSchemaTypes_string)),
        graph = g\<rparr> # later) p locale
     = getStringInLocaleAll toLowerCase (before @ later) p locale \<and>
   \<not> (getLiteralOfTypeMatcher p xmlSchemaTypes_string quad \<and>
      getLocaleStringMatcher toLowerCase p' locale quad)"
proof (intro conjI)
  show "\<not> (getLiteralOfTypeMatcher p xmlSchemaTypes_string quad \<and>
      getLocaleStringMatcher toLowerCase p' locale quad)"
    using xmlSchemaTypes_distinct(3)
    by (auto simp add: getLiteralOfTypeMatcher_def getLocaleStringMatcher_def
        split: rdf_term.splits)
qed (simp_all add: getStringUnlocalizedOne_def getStringUnlocalizedAll_def
    getLiteralOneOfType_skip getLiteralAllOfType_skip getStringInLocale_skip
    getLiteralOfTypeMatcher_other_datatype getLocaleStringMatcher_other_datatype
    xmlSchemaTypes_distinct)


subsection \<open>Locales and predicate arguments\<close>

lemma getLocaleStringMatcher_cong:
  "toLowerCase l1 = toLowerCase l2 \<Longrightarrow>
     getLocaleStringMatcher toLowerCase p l1 = getLocaleStringMatcher toLowerCase p l2"
  by (auto simp add: getLocaleStringMatcher_def fun_eq_iff split: rdf_term.splits)

text \<open>
  C6. The locale argument is read through lower-casing only: for every lower-casing
  function, two locales that are equal after lower-casing give the same results of
  \<^verbatim>\<open>getStringInLocaleOne\<close> and \<^verbatim>\<open>getStringInLocaleAll\<close> on every Thing and predicate. Nothing
  else is normalised: a language-tagged literal under the predicate is returned exactly
  when its language tag and the locale are equal after lower-casing. So a literal tagged
  \<^verbatim>\<open>EN\<close> is found with the locale \<^verbatim>\<open>EN\<close>, and, lower-casing sending \<^verbatim>\<open>EN\<close> and \<^verbatim>\<open>en\<close> to
  the same string, with the locale \<^verbatim>\<open>en\<close> and the same result; a literal tagged \<^verbatim>\<open>en-US\<close>
  is not found with the locale \<^verbatim>\<open>en\<close>, lower-casing keeping the two apart.
\<close>

theorem locale_matching_case_insensitive:
  "(toLowerCase l1 = toLowerCase l2 \<longrightarrow>
      getStringInLocaleOne toLowerCase thing p l1 = getStringInLocaleOne toLowerCase thing p l2 \<and>
      getStringInLocaleAll toLowerCase thing p l1 = getStringInLocaleAll toLowerCase thing p l2) \<and>
   getStringInLocaleAll toLowerCase
     [\<lparr>subject = s, predicate = TNamedNode (asNamedNode p),
       object = TLiteral (Literal lexical lang (NamedNode xmlSchemaTypes_langString)),
       graph = g\<rparr>] p locale
     = (if toLowerCase lang = toLowerCase locale then [lexical] else []) \<and>
   getStringInLocaleOne toLowerCase
     [\<lparr>subject = s, predicate = TNamedNode (asNamedNode p),
       object = TLiteral (Literal lexical lang (NamedNode xmlSchemaTypes_langString)),
       graph = g\<rparr>] p locale
     = (if toLowerCase lang = toLowerCase locale then Some lexical else None) \<and>
   getStringInLocaleOne toLowerCase
     [exampleLiteral examplePredicate ''hello'' ''EN'' xmlSchemaTypes_langString]
     (IriString examplePredicate) ''EN'' = Some ''hello'' \<and>
   (toLowerCase ''EN'' = toLowerCase ''en'' \<longrightarrow>
      getStringInLocaleOne toLowerCase
        [exampleLiteral examplePredicate ''hello'' ''EN'' xmlSchemaTypes_langString]
        (IriString examplePredicate) ''en'' = Some ''hello'') \<and>
   (toLowerCase ''en-US'' \<noteq> toLowerCase ''en'' \<longrightarrow>
      getStringInLocaleOne toLowerCase
        [exampleLiteral examplePredicate ''hello'' ''en-US'' xmlSchemaTypes_langString]
        (IriString examplePredicate) ''en'' = None)"
proof (intro conjI impI)
  assume "toLowerCase l1 = toLowerCase l2"
  then have "getLocaleStringMatcher toLowerCase p l1 = getLocaleStringMatcher toLowerCase p l2"
    by (rule getLocaleStringMatcher_cong)
  then show "getStringInLocaleOne toLowerCase thing p l1 = getStringInLocaleOne toLowerCase thing p l2"
    and "getStringInLocaleAll toLowerCase thing p l1 = getStringInLocaleAll toLowerCase thing p l2"
    by (simp_all add: getStringInLocaleOne_def getStringInLocaleAll_def)
next
  show "getStringInLocaleAll toLowerCase
     [\<lparr>subject = s, predicate = TNamedNode (asNamedNode p),
       object = TLiteral (Literal lexical lang (NamedNode xmlSchemaTypes_langString)),
       graph = g\<rparr>] p locale
     = (if toLowerCase lang = toLowerCase locale then [lexical] else [])"
    by (simp add: getStringInLocaleAll_filter getLocaleStringMatcher_def)
  show "getStringInLocaleOne toLowerCase
     [\<lparr>subject = s, predicate = TNamedNode (asNamedNode p),
       object = TLiteral (Literal lexical lang (NamedNode xmlSchemaTypes_langString)),
       graph = g\<rparr>] p locale
     = (if toLowerCase lang = toLowerCase locale then Some lexical else None)"
    by (simp add: getStringInLocaleOne_first getStringInLocaleAll_filter
        getLocaleStringMatcher_def)
  show "getStringInLocaleOne toLowerCase
     [exampleLiteral examplePredicate ''hello'' ''EN'' xmlSchemaTypes_langString]
     (IriString examplePredicate) ''EN'' = Some ''hello''"
    by (simp add: getStringInLocaleOne_first getStringInLocaleAll_filter
        getLocaleStringMatcher_def exampleLiteral_def exampleQuad_def)
next
  assume "toLowerCase ''EN'' = toLowerCase ''en''"
  then show "getStringInLocaleOne toLowerCase
        [exampleLiteral examplePredicate ''hello'' ''EN'' xmlSchemaTypes_langString]
        (IriString examplePredicate) ''en'' = Some ''hello''"
    by (simp add: getStringInLocaleOne_first getStringInLocaleAll_filter
        getLocaleStringMatcher_def exampleLiteral_def exampleQuad_def)
next
  assume "toLowerCase ''en-US'' \<noteq> toLowerCase ''en''"
  then show "getStringInLocaleOne toLowerCase
        [exampleLiteral examplePredicate ''hello'' ''en-US'' xmlSchemaTypes_langString]
        (IriString examplePredicate) ''en'' = None"
    by (simp add: getStringInLocaleOne_first getStringInLocaleAll_filter
        getLocaleStringMatcher_def exampleLiteral_def exampleQuad_def)
qed

text \<open>
  An instance, with the example lower-casing function: the locales \<^verbatim>\<open>fr\<close> and \<^verbatim>\<open>FR\<close> on
  the example Thing, whose localized string is tagged \<^verbatim>\<open>FR\<close>, and the tags \<^verbatim>\<open>EN\<close> and
  \<^verbatim>\<open>en-US\<close> against the locale \<^verbatim>\<open>en\<close>.
\<close>

theorem locale_matching_case_insensitive_witness:
  "(exampleToLowerCase ''fr'' = exampleToLowerCase ''FR''
    \<and> exampleToLowerCase ''EN'' = exampleToLowerCase ''en''
    \<and> exampleToLowerCase ''en-US'' \<noteq> exampleToLowerCase ''en'')
   \<and> (getStringInLocaleOne exampleToLowerCase exampleThing (IriString examplePredicate) ''fr''
       = getStringInLocaleOne exampleToLowerCase exampleThing (IriString examplePredicate) ''FR''
    \<and> getStringInLocaleAll exampleToLowerCase exampleThing (IriString examplePredicate) ''fr''
       = getStringInLocaleAll exampleToLowerCase exampleThing (IriString examplePredicate) ''FR''
    \<and> getStringInLocaleOne exampleToLowerCase
        [exampleLiteral examplePredicate ''hello'' ''EN'' xmlSchemaTypes_langString]
        (IriString examplePredicate) ''en'' = Some ''hello''
    \<and> getStringInLocaleOne exampleToLowerCase
        [exampleLiteral examplePredicate ''hello'' ''en-US'' xmlSchemaTypes_langString]
        (IriString examplePredicate) ''en'' = None)"
  (is "?lower \<and> ?same")
proof -
  have lower: ?lower
    by code_simp
  have ?same
    using lower
      locale_matching_case_insensitive [where
        toLowerCase = exampleToLowerCase and ?l1.0 = "''fr''" and ?l2.0 = "''FR''" and
        thing = exampleThing and p = "IriString examplePredicate"]
    by simp
  with lower show ?thesis
    by simp
qed

text \<open>
  C8. A predicate given as a raw IRI string and as the named node with that value are
  interchangeable: each of the eighteen accessors returns the same result for both, on
  every Thing. Canonicalizing is idempotent: the canonical node of a canonical node is
  that node. Statements are compared with the canonical node by value.
\<close>

theorem predicate_string_and_node_interchangeable:
  "asNamedNode (Iri (asNamedNode p)) = asNamedNode p \<and>
   getIriOne thing (IriString s) = getIriOne thing (Iri (NamedNode s)) \<and>
   getIriAll thing (IriString s) = getIriAll thing (Iri (NamedNode s)) \<and>
   getBooleanOne deserializeB thing (IriString s)
     = getBooleanOne deserializeB thing (Iri (NamedNode s)) \<and>
   getBooleanAll deserializeB thing (IriString s)
     = getBooleanAll deserializeB thing (Iri (NamedNode s)) \<and>
   getDatetimeOne deserializeT thing (IriString s)
     = getDatetimeOne deserializeT thing (Iri (NamedNode s)) \<and>
   getDatetimeAll deserializeT thing (IriString s)
     = getDatetimeAll deserializeT thing (Iri (NamedNode s)) \<and>
   getDecimalOne deserializeD thing (IriString s)
     = getDecimalOne deserializeD thing (Iri (NamedNode s)) \<and>
   getDecimalAll deserializeD thing (IriString s)
     = getDecimalAll deserializeD thing (Iri (NamedNode s)) \<and>
   getIntegerOne deserializeI thing (IriString s)
     = getIntegerOne deserializeI thing (Iri (NamedNode s)) \<and>
   getIntegerAll deserializeI thing (IriString s)
     = getIntegerAll deserializeI thing (Iri (NamedNode s)) \<and>
   getStringInLocaleOne toLowerCase thing (IriString s) locale
     = getStringInLocaleOne toLowerCase thing (Iri (NamedNode s)) locale \<and>
   getStringInLocaleAll toLowerCase thing (IriString s) locale
     = getStringInLocaleAll toLowerCase thing (Iri (NamedNode s)) locale \<and>
   getStringUnlocalizedOne thing (IriString s) = getStringUnlocalizedOne thing (Iri (NamedNode s)) \<and>
   getStringUnlocalizedAll thing (IriString s) = getStringUnlocalizedAll thing (Iri (NamedNode s)) \<and>
   getNamedNodeOne thing (IriString s) = getNamedNodeOne thing (Iri (NamedNode s)) \<and>
   getNamedNodeAll thing (IriString s) = getNamedNodeAll thing (Iri (NamedNode s)) \<and>
   getLiteralOne thing (IriString s) = getLiteralOne thing (Iri (NamedNode s)) \<and>
   getLiteralAll thing (IriString s) = getLiteralAll thing (Iri (NamedNode s))"
proof -
  have matchers:
    "getNamedNodeMatcher (IriString s) = getNamedNodeMatcher (Iri (NamedNode s))"
    "getLiteralMatcher (IriString s) = getLiteralMatcher (Iri (NamedNode s))"
    "getLiteralOfTypeMatcher (IriString s) dt = getLiteralOfTypeMatcher (Iri (NamedNode s)) dt"
    "getLocaleStringMatcher toLowerCase (IriString s) l = getLocaleStringMatcher toLowerCase (Iri (NamedNode s)) l"
    for dt l
    by (simp_all add: getNamedNodeMatcher_def getLiteralMatcher_def
        getLiteralOfTypeMatcher_def getLocaleStringMatcher_def)
  have literals:
    "getLiteralOneOfType thing (IriString s) dt = getLiteralOneOfType thing (Iri (NamedNode s)) dt"
    "getLiteralAllOfType thing (IriString s) dt = getLiteralAllOfType thing (Iri (NamedNode s)) dt"
    for dt
    by (simp_all add: getLiteralOneOfType_def getLiteralAllOfType_def matchers)
  have canonical: "asNamedNode (Iri (asNamedNode p)) = asNamedNode p"
    by simp
  show ?thesis
    by (simp add: canonical one_defs all_defs literals matchers getIriOne_def getIriAll_def
        getStringInLocaleOne_def getStringInLocaleAll_def getStringUnlocalizedOne_def
        getStringUnlocalizedAll_def getNamedNodeOne_def getNamedNodeAll_def
        getLiteralOne_def getLiteralAll_def)
qed


subsection \<open>No accessor throws\<close>

text \<open>
  The reads that can throw do throw in the model when nothing guards them; the matchers
  guard each of them with \<^verbatim>\<open>isLiteral\<close>.
\<close>

lemma unguarded_read_throws:
  "read_datatype_value (TNamedNode n) = Inl TypeError"
  "read_language_toLowerCase toLowerCase (TBlankNode b) = Inl TypeError"
  by simp_all

lemma findOne_checked_Inr:
  "findOne_checked thing (\<lambda>quad. Inr (matcher quad)) = Inr (findOne thing matcher)"
  by (induction thing) simp_all

lemma findAll_loop_checked_Inr:
  "findAll_loop_checked thing (\<lambda>quad. Inr (matcher quad)) matched
     = Inr (findAll_loop thing matcher matched)"
  by (induction thing arbitrary: matched) simp_all

lemma findAll_checked_Inr:
  "findAll_checked thing (\<lambda>quad. Inr (matcher quad)) = Inr (findAll thing matcher)"
  by (simp add: findAll_checked_def findAll_def findAll_loop_checked_Inr)

lemma getNamedNodeMatcher_checked_Inr:
  "getNamedNodeMatcher_checked p = (\<lambda>quad. Inr (getNamedNodeMatcher p quad))"
  by (auto simp add: getNamedNodeMatcher_checked_def getNamedNodeMatcher_def fun_eq_iff)

lemma getLiteralMatcher_checked_Inr:
  "getLiteralMatcher_checked p = (\<lambda>quad. Inr (getLiteralMatcher p quad))"
  by (auto simp add: getLiteralMatcher_checked_def getLiteralMatcher_def fun_eq_iff)

lemma getLiteralOfTypeMatcher_checked_Inr:
  "getLiteralOfTypeMatcher_checked p dt = (\<lambda>quad. Inr (getLiteralOfTypeMatcher p dt quad))"
proof
  fix quad
  show "getLiteralOfTypeMatcher_checked p dt quad = Inr (getLiteralOfTypeMatcher p dt quad)"
    by (cases "object quad")
      (simp_all add: getLiteralOfTypeMatcher_checked_def getLiteralOfTypeMatcher_def
        map_result_def)
qed

lemma getLocaleStringMatcher_checked_Inr:
  "getLocaleStringMatcher_checked toLowerCase p l = (\<lambda>quad. Inr (getLocaleStringMatcher toLowerCase p l quad))"
proof
  fix quad
  show "getLocaleStringMatcher_checked toLowerCase p l quad = Inr (getLocaleStringMatcher toLowerCase p l quad)"
    by (cases "object quad")
      (simp_all add: getLocaleStringMatcher_checked_def getLocaleStringMatcher_def
        map_result_def)
qed

lemma getLiteralOfType_checked_Inr:
  "getLiteralOneOfType_checked thing p dt = Inr (getLiteralOneOfType thing p dt)"
  "getLiteralAllOfType_checked thing p dt = Inr (getLiteralAllOfType thing p dt)"
  by (simp_all add: getLiteralOneOfType_checked_def getLiteralAllOfType_checked_def
      getLiteralOneOfType_def getLiteralAllOfType_def getLiteralOfTypeMatcher_checked_Inr
      findOne_checked_Inr findAll_checked_Inr map_result_def split: option.split)

lemma getDeserialized_checked_Inr:
  "getDeserializedOne_checked dt d thing p =
     Inr (case getLiteralOneOfType thing p dt of None \<Rightarrow> None | Some v \<Rightarrow> d v)"
  "getDeserializedAll_checked dt d thing p =
     Inr (map the (filter (\<lambda>r. r \<noteq> None) (map d (getLiteralAllOfType thing p dt))))"
  by (simp_all add: getDeserializedOne_checked_def getDeserializedAll_checked_def
      getLiteralOfType_checked_Inr map_result_def)

lemmas checked_defs =
  getBooleanOne_checked_def getBooleanAll_checked_def getDatetimeOne_checked_def
  getDatetimeAll_checked_def getDecimalOne_checked_def getDecimalAll_checked_def
  getIntegerOne_checked_def getIntegerAll_checked_def

text \<open>
  C9. Every accessor of the public API returns normally on every Thing, predicate, locale
  and deserializer: in the reading of the source that keeps a \<^verbatim>\<open>TypeError\<close> as a value, each
  of the eighteen accessors returns a result and never the error, and the result is the
  value, \<^verbatim>\<open>null\<close> or sequence that the accessor computes. The scanner is a recursion over
  the finite list of statements, so it terminates. A missing statement, a statement of
  another kind or datatype, and a lexical value that does not deserialize all end in
  \<^verbatim>\<open>null\<close> or in an omitted entry.
\<close>

theorem accessors_never_throw:
  "getIriOne_checked thing p = Inr (getIriOne thing p) \<and>
   getIriAll_checked thing p = Inr (getIriAll thing p) \<and>
   getBooleanOne_checked deserializeB thing p = Inr (getBooleanOne deserializeB thing p) \<and>
   getBooleanAll_checked deserializeB thing p = Inr (getBooleanAll deserializeB thing p) \<and>
   getDatetimeOne_checked deserializeT thing p = Inr (getDatetimeOne deserializeT thing p) \<and>
   getDatetimeAll_checked deserializeT thing p = Inr (getDatetimeAll deserializeT thing p) \<and>
   getDecimalOne_checked deserializeD thing p = Inr (getDecimalOne deserializeD thing p) \<and>
   getDecimalAll_checked deserializeD thing p = Inr (getDecimalAll deserializeD thing p) \<and>
   getIntegerOne_checked deserializeI thing p = Inr (getIntegerOne deserializeI thing p) \<and>
   getIntegerAll_checked deserializeI thing p = Inr (getIntegerAll deserializeI thing p) \<and>
   getStringInLocaleOne_checked toLowerCase thing p locale = Inr (getStringInLocaleOne toLowerCase thing p locale) \<and>
   getStringInLocaleAll_checked toLowerCase thing p locale = Inr (getStringInLocaleAll toLowerCase thing p locale) \<and>
   getStringUnlocalizedOne_checked thing p = Inr (getStringUnlocalizedOne thing p) \<and>
   getStringUnlocalizedAll_checked thing p = Inr (getStringUnlocalizedAll thing p) \<and>
   getNamedNodeOne_checked thing p = Inr (getNamedNodeOne thing p) \<and>
   getNamedNodeAll_checked thing p = Inr (getNamedNodeAll thing p) \<and>
   getLiteralOne_checked thing p = Inr (getLiteralOne thing p) \<and>
   getLiteralAll_checked thing p = Inr (getLiteralAll thing p)"
proof (intro conjI)
  show "getIriOne_checked thing p = Inr (getIriOne thing p)"
    by (simp add: getIriOne_checked_def getIriOne_def getNamedNodeMatcher_checked_Inr
        findOne_checked_Inr map_result_def split: option.split)
  show "getIriAll_checked thing p = Inr (getIriAll thing p)"
    by (simp add: getIriAll_checked_def getIriAll_def getNamedNodeMatcher_checked_Inr
        findAll_checked_Inr map_result_def)
  show "getStringInLocaleOne_checked toLowerCase thing p locale = Inr (getStringInLocaleOne toLowerCase thing p locale)"
    by (simp add: getStringInLocaleOne_checked_def getStringInLocaleOne_def
        getLocaleStringMatcher_checked_Inr findOne_checked_Inr map_result_def
        split: option.split)
  show "getStringInLocaleAll_checked toLowerCase thing p locale = Inr (getStringInLocaleAll toLowerCase thing p locale)"
    by (simp add: getStringInLocaleAll_checked_def getStringInLocaleAll_def
        getLocaleStringMatcher_checked_Inr findAll_checked_Inr map_result_def)
  show "getNamedNodeOne_checked thing p = Inr (getNamedNodeOne thing p)"
    by (simp add: getNamedNodeOne_checked_def getNamedNodeOne_def
        getNamedNodeMatcher_checked_Inr findOne_checked_Inr map_result_def
        split: option.split)
  show "getNamedNodeAll_checked thing p = Inr (getNamedNodeAll thing p)"
    by (simp add: getNamedNodeAll_checked_def getNamedNodeAll_def
        getNamedNodeMatcher_checked_Inr findAll_checked_Inr map_result_def)
  show "getLiteralOne_checked thing p = Inr (getLiteralOne thing p)"
    by (simp add: getLiteralOne_checked_def getLiteralOne_def
        getLiteralMatcher_checked_Inr findOne_checked_Inr map_result_def
        split: option.split)
  show "getLiteralAll_checked thing p = Inr (getLiteralAll thing p)"
    by (simp add: getLiteralAll_checked_def getLiteralAll_def
        getLiteralMatcher_checked_Inr findAll_checked_Inr map_result_def)
qed (simp_all add: checked_defs getDeserialized_checked_Inr one_defs all_defs
    getStringUnlocalizedOne_checked_def getStringUnlocalizedAll_checked_def
    getStringUnlocalizedOne_def getStringUnlocalizedAll_def getLiteralOfType_checked_Inr)

end
